theory Spec2Isabelle
  imports Main "HOL-Library.AList"
begin

section \<open>Python values used by the protopiler\<close>

text \<open>
  Exceptions of the source are values. \<open>PyException msg\<close> is a plain
  \<^verbatim>\<open>raise Exception(msg)\<close>; the others are the built-in exceptions that the
  operations of the source raise by themselves.
\<close>

datatype error =
    PyException string
  | UnboundLocalError
  | KeyError
  | IndexError
  | AttributeError
  | ValueError
  | ExternalError string

text \<open>
  A scalar volume is an \<^verbatim>\<open>int\<close>, or a \<^verbatim>\<open>str\<close> naming a column of a resource
  table. The volume field of a command is a scalar or a list of integers;
  a source or destination field is a \<^verbatim>\<open>str\<close> or a list of \<^verbatim>\<open>str\<close>.
\<close>

datatype vol = IntVol int | StrVol string

datatype volume_field = Vol vol | Vols "int list"

datatype loc_field = Loc string | Locs "string list"

record command =
  name :: "string option"
  source :: loc_field
  destination :: loc_field
  volume :: volume_field
  drop_tip :: bool

type_synonym transfer = "vol \<times> string \<times> string"

text \<open>Sequencing: the first exception ends the computation.\<close>

definition and_then :: "error + 'a \<Rightarrow> ('a \<Rightarrow> error + 'b) \<Rightarrow> error + 'b" where
  "and_then r f = (case r of Inl e \<Rightarrow> Inl e | Inr x \<Rightarrow> f x)"

fun map_result :: "('a \<Rightarrow> error + 'b) \<Rightarrow> 'a list \<Rightarrow> error + 'b list" where
  "map_result f [] = Inr []"
| "map_result f (x # xs) =
     and_then (f x) (\<lambda>y. and_then (map_result f xs) (\<lambda>ys. Inr (y # ys)))"

section \<open>String operations\<close>

text \<open>\<^verbatim>\<open>sub in s\<close> on two strings.\<close>

fun str_contains :: "string \<Rightarrow> string \<Rightarrow> bool" where
  "str_contains sub [] = (sub = [])"
| "str_contains sub (c # cs) = (take (length sub) (c # cs) = sub \<or> str_contains sub cs)"

text \<open>\<^verbatim>\<open>s.split(":")\<close>: the segments between the separators, never empty as a list.\<close>

fun split_char :: "char \<Rightarrow> string \<Rightarrow> string list" where
  "split_char sep [] = [[]]"
| "split_char sep (c # cs) =
     (if c = sep then [] # split_char sep cs
      else (case split_char sep cs of
              [] \<Rightarrow> [[c]]
            | w # ws \<Rightarrow> (c # w) # ws))"

text \<open>\<^verbatim>\<open>s.split(", ")\<close>, a separator of two characters, scanned from the left.\<close>

fun split_comma_space :: "string \<Rightarrow> string list" where
  "split_comma_space (x # y # zs) =
     (if x = CHR '','' \<and> y = CHR '' '' then [] # split_comma_space zs
      else (case split_comma_space (y # zs) of
              [] \<Rightarrow> [[x]]
            | w # ws \<Rightarrow> (x # w) # ws))"
| "split_comma_space s = [s]"

text \<open>\<^verbatim>\<open>sep.join(parts)\<close>.\<close>

fun join :: "string \<Rightarrow> string list \<Rightarrow> string" where
  "join sep [] = []"
| "join sep [p] = p"
| "join sep (p # q # ps) = p @ sep @ join sep (q # ps)"

text \<open>\<^verbatim>\<open>s.strip(chars)\<close>: drops leading and trailing characters of the set.\<close>

definition strip :: "string \<Rightarrow> string \<Rightarrow> string" where
  "strip chars s =
     rev (dropWhile (\<lambda>c. c \<in> set chars) (rev (dropWhile (\<lambda>c. c \<in> set chars) s)))"

text \<open>
  \<^verbatim>\<open>s.isdigit()\<close> on ASCII text: at least one character, all of them digits.
  Strings are modelled as ASCII text. Python's \<^verbatim>\<open>isdigit\<close> accepts further
  Unicode digits, which are outside this model; whatever the test below accepts
  as digits, Python accepts as well.
\<close>

definition isdigit :: "string \<Rightarrow> bool" where
  "isdigit s = (s \<noteq> [] \<and> list_all (\<lambda>c. c \<in> set ''0123456789'') s)"

text \<open>\<^verbatim>\<open>str(n)\<close> for an integer.\<close>

fun str_nat :: "nat \<Rightarrow> string" where
  "str_nat n =
     (if n < 10 then [''0123456789'' ! n]
      else str_nat (n div 10) @ [''0123456789'' ! (n mod 10)])"

definition str_int :: "int \<Rightarrow> string" where
  "str_int i = (if i < 0 then CHR ''-'' # str_nat (nat (- i)) else str_nat (nat i))"

fun str_vol :: "vol \<Rightarrow> string" where
  "str_vol (IntVol i) = str_int i"
| "str_vol (StrVol s) = s"

section \<open>Unrolling one command block\<close>

text \<open>
  \<open>process_instruction\<close> is a generator that rewrites the block it is given
  before its first \<^verbatim>\<open>yield\<close>. The model returns the rewritten block together
  with the list of triples the generator yields, or the exception.

  \<open>volume_step\<close> is the \<^verbatim>\<open>isinstance(command_block.volume, list)\<close> statement:
  the field afterwards and the value of \<^verbatim>\<open>iter_len\<close>.
\<close>

fun volume_step :: "volume_field \<Rightarrow> volume_field \<times> nat" where
  "volume_step (Vols vs) =
     (if length vs = 1 then (Vol (IntVol (hd vs)), 0) else (Vols vs, length vs))"
| "volume_step (Vol v) = (Vol v, 0)"

text \<open>
  The statements for \<^verbatim>\<open>source\<close> and \<^verbatim>\<open>destination\<close> have one shape. After the
  check, \<^verbatim>\<open>iter_len = len(field)\<close> reads the field as it then is: the list, or
  the string a one-element list was replaced by.
\<close>

fun location_step :: "string \<Rightarrow> nat \<Rightarrow> loc_field \<Rightarrow> error + (loc_field \<times> nat)" where
  "location_step msg iter_len (Locs ls) =
     (if iter_len \<noteq> 0 \<and> length ls \<noteq> iter_len then
        (if length ls = 1 then Inr (Loc (hd ls), length (hd ls))
         else Inl (PyException msg))
      else Inr (Locs ls, length ls))"
| "location_step msg iter_len (Loc s) = Inr (Loc s, iter_len)"

fun volumes_of :: "nat \<Rightarrow> volume_field \<Rightarrow> vol list" where
  "volumes_of n (Vol v) = replicate n v"
| "volumes_of n (Vols vs) = map IntVol vs"

fun locations_of :: "nat \<Rightarrow> loc_field \<Rightarrow> string list" where
  "locations_of n (Loc s) = replicate n s"
| "locations_of n (Locs ls) = ls"

definition source_msg :: string where
  "source_msg = ''Multiple iterables found, cannot deterine dimension to iterate over''"

definition destination_msg :: string where
  "destination_msg =
     ''Multiple iterables of differnet lengths found, cannot deterine dimension to iterate over''"

text \<open>
  The first branch: \<^verbatim>\<open>type(volume) is int and type(source) is str and
  type(destination) is str\<close>, which yields the three fields as they are.
\<close>

fun scalar_triple :: "volume_field \<Rightarrow> loc_field \<Rightarrow> loc_field \<Rightarrow> transfer option" where
  "scalar_triple (Vol (IntVol v)) (Loc s) (Loc d) = Some (IntVol v, s, d)"
| "scalar_triple v s d = None"

definition process_instruction :: "command \<Rightarrow> error + (command \<times> transfer list)" where
  "process_instruction command_block =
     (case scalar_triple (volume command_block) (source command_block)
             (destination command_block) of
        Some t \<Rightarrow> Inr (command_block, [t])
      | None \<Rightarrow>
        (case volume_step (volume command_block) of (v, n0) \<Rightarrow>
         (case location_step source_msg n0 (source command_block) of
            Inl e \<Rightarrow> Inl e
          | Inr (s, n1) \<Rightarrow>
         (case location_step destination_msg n1 (destination command_block) of
            Inl e \<Rightarrow> Inl e
          | Inr (d, n2) \<Rightarrow>
              Inr (command_block\<lparr>source := s, destination := d, volume := v\<rparr>,
                   zip (volumes_of n2 v) (zip (locations_of n2 s) (locations_of n2 d)))))))"

section \<open>Command preprocessing\<close>

text \<open>
  A resource table is a data frame: column names with their cells, in row
  order. The cells come from the spreadsheet reader, which is outside the
  source; \<open>cell_str\<close> is what an f-string makes of a cell and \<open>cell_int\<close> is
  \<^verbatim>\<open>int(cell)\<close>. \<^verbatim>\<open>self.resources\<close> is a dict from resource name to table, kept
  in insertion order.
\<close>

type_synonym 'c table = "(string \<times> 'c list) list"

type_synonym 'c resources = "(string \<times> 'c table) list"

text \<open>\<^verbatim>\<open>":[" in field\<close>: a substring test on a string, membership on a list.\<close>

fun has_bracket :: "loc_field \<Rightarrow> bool" where
  "has_bracket (Loc s) = str_contains '':['' s"
| "has_bracket (Locs ls) = ('':['' \<in> set ls)"

definition unpack_alias :: "loc_field \<Rightarrow> error + string list" where
  "unpack_alias command_elem =
     (case command_elem of
        Locs ls \<Rightarrow> Inl AttributeError
      | Loc s \<Rightarrow>
          (let alias = hd (split_char CHR '':'' s);
               process_source = join '':'' (tl (split_char CHR '':'' s));
               locations = split_comma_space (strip '']['' process_source)
           in Inr (map (\<lambda>location.
                          if CHR '':'' \<notin> set location then alias @ '':'' @ location
                          else location)
                       (filter (\<lambda>location. length location \<noteq> 0) locations))))"

fun peek :: "loc_field \<Rightarrow> error + string" where
  "peek (Loc s) = Inr s"
| "peek (Locs []) = Inl IndexError"
| "peek (Locs (l # ls)) = Inr l"

text \<open>\<^verbatim>\<open>not peek_well.isdigit() and not peek_well[1:].isdigit()\<close>\<close>

definition names_column :: "string \<Rightarrow> bool" where
  "names_column peek_well = (\<not> isdigit peek_well \<and> \<not> isdigit (drop 1 peek_well))"

text \<open>
  \<^verbatim>\<open>self.resources[resource_key][column]\<close>. \<^verbatim>\<open>resource_key\<close> is a local that is
  bound only when \<^verbatim>\<open>self.resources\<close> is not empty.
\<close>

definition column :: "'c resources \<Rightarrow> string option \<Rightarrow> string \<Rightarrow> error + 'c list" where
  "column resources resource_key col =
     (case resource_key of
        None \<Rightarrow> Inl UnboundLocalError
      | Some k \<Rightarrow>
          (case map_of resources k of
             None \<Rightarrow> Inl KeyError
           | Some t \<Rightarrow>
               (case map_of t col of
                  None \<Rightarrow> Inl KeyError
                | Some cells \<Rightarrow> Inr cells)))"

text \<open>
  The loop over \<^verbatim>\<open>zip(repeat(field), cells)\<close>: each round splits the whole
  field, which a list does not support.
\<close>

fun column_locations :: "('c \<Rightarrow> string) \<Rightarrow> loc_field \<Rightarrow> 'c list \<Rightarrow> error + string list" where
  "column_locations cell_str field [] = Inr []"
| "column_locations cell_str (Locs ls) (c # cs) = Inl AttributeError"
| "column_locations cell_str (Loc s) (c # cs) =
     Inr (map (\<lambda>loc. hd (split_char CHR '':'' s) @ '':'' @ cell_str loc) (c # cs))"

definition expand_alias :: "loc_field \<Rightarrow> error + loc_field" where
  "expand_alias field =
     (if has_bracket field then and_then (unpack_alias field) (\<lambda>ls. Inr (Locs ls))
      else Inr field)"

definition read_from_file ::
  "('c \<Rightarrow> string) \<Rightarrow> 'c resources \<Rightarrow> string option \<Rightarrow> string \<Rightarrow> loc_field
     \<Rightarrow> error + loc_field" where
  "read_from_file cell_str resources resource_key peek_well field =
     (if names_column peek_well then
        and_then (column resources resource_key peek_well) (\<lambda>cells.
        and_then (column_locations cell_str field cells) (\<lambda>new_locations.
        Inr (Locs new_locations)))
      else Inr field)"

text \<open>
  The body of the loop over the commands. \<^verbatim>\<open>peek_well\<close> is assigned once, from
  the source; the destination part assigns \<^verbatim>\<open>peek_elem\<close> again and tests the
  \<^verbatim>\<open>peek_well\<close> it already has.
\<close>

definition postprocess_command ::
  "('c \<Rightarrow> string) \<Rightarrow> 'c resources \<Rightarrow> string option \<Rightarrow> command \<Rightarrow> error + command" where
  "postprocess_command cell_str resources resource_key command =
     and_then (expand_alias (source command)) (\<lambda>src.
     and_then (peek src) (\<lambda>peek_elem.
     let peek_well = last (split_char CHR '':'' peek_elem) in
     and_then (read_from_file cell_str resources resource_key peek_well src) (\<lambda>src'.
     and_then (expand_alias (destination command)) (\<lambda>dst.
     and_then (peek dst) (\<lambda>peek_elem.
     and_then (read_from_file cell_str resources resource_key peek_well dst) (\<lambda>dst'.
     Inr (command\<lparr>source := src', destination := dst'\<rparr>)))))))"

text \<open>
  The statement after the loop: it reads \<^verbatim>\<open>command\<close>, the loop variable, so it
  works on the last command; with no commands the variable is unbound.
\<close>

definition resolve_volume ::
  "('c \<Rightarrow> error + int) \<Rightarrow> 'c resources \<Rightarrow> string option \<Rightarrow> command \<Rightarrow> error + command" where
  "resolve_volume cell_int resources resource_key command =
     (case volume command of
        Vol (StrVol col) \<Rightarrow>
          and_then (column resources resource_key col) (\<lambda>cells.
          and_then (map_result cell_int cells) (\<lambda>new_volumes.
          Inr (command\<lparr>volume := Vols new_volumes\<rparr>)))
      | Vol (IntVol v) \<Rightarrow> Inr command
      | Vols vs \<Rightarrow> Inr command)"

definition first_key :: "'c resources \<Rightarrow> string option" where
  "first_key resources = (case resources of [] \<Rightarrow> None | (k, t) # rest \<Rightarrow> Some k)"

definition postprocess_commands ::
  "('c \<Rightarrow> string) \<Rightarrow> ('c \<Rightarrow> error + int) \<Rightarrow> 'c resources \<Rightarrow> command list
     \<Rightarrow> error + command list" where
  "postprocess_commands cell_str cell_int resources commands =
     (let resource_key = first_key resources in
      and_then (map_result (postprocess_command cell_str resources resource_key) commands)
        (\<lambda>cs. if cs = [] then Inl UnboundLocalError
              else and_then (resolve_volume cell_int resources resource_key (last cs))
                     (\<lambda>c. Inr (butlast cs @ [c]))))"

section \<open>Loading\<close>

record resource =
  resource_name :: string
  location :: string

fun read_all ::
  "(string \<Rightarrow> error + 'c table) \<Rightarrow> resource list \<Rightarrow> 'c resources \<Rightarrow> error + 'c resources" where
  "read_all read_excel [] res = Inr res"
| "read_all read_excel (r # rs) res =
     and_then (read_excel (location r))
       (\<lambda>t. read_all read_excel rs (AList.update (resource_name r) t res))"

text \<open>
  \<^verbatim>\<open>self.resources = {}\<close>, then \<^verbatim>\<open>if self.resources:\<close> around the loop that reads
  the files.
\<close>

definition load_resources ::
  "(string \<Rightarrow> error + 'c table) \<Rightarrow> resource list \<Rightarrow> error + 'c resources" where
  "load_resources read_excel resources =
     (let self_resources = [] in
      if self_resources \<noteq> [] then read_all read_excel resources self_resources
      else Inr self_resources)"

record protocol_config =
  resources :: "resource list"
  commands :: "command list"

text \<open>
  \<open>load_config\<close> after the file is parsed: the state it leaves in
  \<^verbatim>\<open>self.resources\<close>, \<^verbatim>\<open>self.resource_manager\<close> and \<^verbatim>\<open>self.commands\<close>. The
  constructor of the resource manager is outside the source.
\<close>

definition load_config ::
  "('c \<Rightarrow> string) \<Rightarrow> ('c \<Rightarrow> error + int) \<Rightarrow> (string \<Rightarrow> error + 'c table)
     \<Rightarrow> (protocol_config \<Rightarrow> error + 'rm) \<Rightarrow> protocol_config
     \<Rightarrow> error + ('c resources \<times> 'rm \<times> command list)" where
  "load_config cell_str cell_int read_excel new_resource_manager config =
     and_then (load_resources read_excel (resources config)) (\<lambda>res.
     and_then (new_resource_manager config) (\<lambda>rm.
     and_then (postprocess_commands cell_str cell_int res (commands config)) (\<lambda>cs.
     Inr (res, rm, cs))))"

section \<open>Emitting the commands\<close>

text \<open>
  The resource manager is outside the source. Its state is a type parameter
  and the members the compiler uses are taken as operations on that state:
  the three methods, which may raise, and the three dicts it reads.
  \<^verbatim>\<open>determine_pipette\<close> answers \<^verbatim>\<open>None\<close> when no pipette fits; \<^verbatim>\<open>get_next_tip\<close>
  answers a rack location and a well, both only ever interpolated into text.
\<close>

datatype labware_location = OneLoc string | ManyLocs "string list"

record 'rm resource_manager =
  determine_pipette :: "'rm \<Rightarrow> vol \<Rightarrow> error + string option"
  get_next_tip :: "'rm \<Rightarrow> string \<Rightarrow> error + ((string \<times> string) \<times> 'rm)"
  update_well_usage :: "'rm \<Rightarrow> string option \<Rightarrow> string \<Rightarrow> error + 'rm"
  mount_to_pipette :: "'rm \<Rightarrow> (string \<times> string) list"
  alias_to_location :: "'rm \<Rightarrow> (string \<times> string) list"
  labware_to_location :: "'rm \<Rightarrow> (string \<times> labware_location) list"

text \<open>
  The template files are outside the source as well. An emitted snippet is
  represented by the template it instantiates and the values put in place of
  its markers; \<open>Comment\<close> is the line naming the block and \<open>Blank\<close> the empty
  string that closes a transfer.
\<close>

datatype action =
    Comment string
  | PickTip string string string
  | Aspirate string vol "string option" string
  | Dispense string vol "string option" string
  | DropTip string
  | Blank

text \<open>The loop of the older format: the last labware named like a wellplate wins.\<close>

fun wellplate_scan :: "(string \<times> labware_location) list \<Rightarrow> string option \<Rightarrow> string option" where
  "wellplate_scan [] found = found"
| "wellplate_scan ((nm, loc) # rest) found =
     wellplate_scan rest
       (if str_contains ''well'' nm then
          (case loc of
             ManyLocs [] \<Rightarrow> found
           | ManyLocs (l # ls) \<Rightarrow> Some l
           | OneLoc l \<Rightarrow> Some l)
        else found)"

definition parse_wellplate_location ::
  "(string \<times> string) list \<Rightarrow> (string \<times> labware_location) list \<Rightarrow> string
     \<Rightarrow> error + string option" where
  "parse_wellplate_location aliases labware command_location =
     (if CHR '':'' \<in> set command_location then
        (case split_char CHR '':'' command_location of
           [plate, w] \<Rightarrow>
             (case map_of aliases plate of
                None \<Rightarrow> Inl KeyError
              | Some l \<Rightarrow> Inr (Some l))
         | _ \<Rightarrow>
             Inl (PyException
                    (''Command: '' @ command_location @ '' is not formatted correctly...'')))
      else Inr (wellplate_scan labware None))"

type_synonym 'rm compile_state = "action list \<times> (string \<times> bool) list \<times> 'rm"

text \<open>The \<^verbatim>\<open>if not tip_loaded[pipette_mount]\<close> branch.\<close>

definition pick_tip ::
  "'rm resource_manager \<Rightarrow> string \<Rightarrow> 'rm compile_state \<Rightarrow> error + 'rm compile_state" where
  "pick_tip ops pipette_mount st =
     (case st of (out, tip_loaded, rm) \<Rightarrow>
        (case map_of (mount_to_pipette ops rm) pipette_mount of
           None \<Rightarrow> Inl KeyError
         | Some pipette_name \<Rightarrow>
             and_then (get_next_tip ops rm pipette_name) (\<lambda>((rack_location, well_location), rm').
             Inr (out @ [PickTip pipette_mount rack_location well_location],
                  AList.update pipette_mount True tip_loaded, rm'))))"

definition no_pipette_msg :: "string \<Rightarrow> vol \<Rightarrow> string" where
  "no_pipette_msg block_name v =
     ''No pipette available for '' @ block_name @ '' with volume: '' @ str_vol v"

text \<open>
  The body of the loop over the triples of one block, in its two parts: the
  aspirate and dispense commands with the optional drop, and before them the
  choice of the pipette and the tip check.
\<close>

definition move_liquid ::
  "'rm resource_manager \<Rightarrow> string \<Rightarrow> bool \<Rightarrow> 'rm compile_state \<Rightarrow> transfer
     \<Rightarrow> error + 'rm compile_state" where
  "move_liquid ops pipette_mount drop_flag st t =
     (case st of (out, tip_loaded, rm) \<Rightarrow>
      case t of (v, src, dst) \<Rightarrow>
        and_then (parse_wellplate_location (alias_to_location ops rm)
                    (labware_to_location ops rm) src) (\<lambda>src_wellplate_location.
        and_then (update_well_usage ops rm src_wellplate_location
                    (last (split_char CHR '':'' src))) (\<lambda>rm2.
        and_then (parse_wellplate_location (alias_to_location ops rm2)
                    (labware_to_location ops rm2) dst) (\<lambda>dst_wellplate_location.
        and_then (update_well_usage ops rm2 dst_wellplate_location
                    (last (split_char CHR '':'' dst))) (\<lambda>rm3.
        Inr (out
               @ [Aspirate pipette_mount v src_wellplate_location
                    (last (split_char CHR '':'' src))]
               @ [Dispense pipette_mount v dst_wellplate_location
                    (last (split_char CHR '':'' dst))]
               @ (if drop_flag then [DropTip pipette_mount] else [])
               @ [Blank],
             if drop_flag then AList.update pipette_mount False tip_loaded else tip_loaded,
             rm3))))))"

definition transfer_step ::
  "'rm resource_manager \<Rightarrow> string \<Rightarrow> bool \<Rightarrow> 'rm compile_state \<Rightarrow> transfer
     \<Rightarrow> error + 'rm compile_state" where
  "transfer_step ops block_name drop_flag st t =
     (case st of (out, tip_loaded, rm) \<Rightarrow>
      case t of (v, src, dst) \<Rightarrow>
        and_then (determine_pipette ops rm v) (\<lambda>found.
        case found of
          None \<Rightarrow> Inl (PyException (no_pipette_msg block_name v))
        | Some pipette_mount \<Rightarrow>
            (case map_of tip_loaded pipette_mount of
               None \<Rightarrow> Inl KeyError
             | Some loaded \<Rightarrow>
                 and_then (if \<not> loaded then pick_tip ops pipette_mount st else Inr st)
                   (\<lambda>st1. move_liquid ops pipette_mount drop_flag st1 t))))"

fun transfers_loop ::
  "'rm resource_manager \<Rightarrow> string \<Rightarrow> bool \<Rightarrow> 'rm compile_state \<Rightarrow> transfer list
     \<Rightarrow> error + 'rm compile_state" where
  "transfers_loop ops block_name drop_flag st [] = Inr st"
| "transfers_loop ops block_name drop_flag st (t # ts) =
     and_then (transfer_step ops block_name drop_flag st t)
       (\<lambda>st'. transfers_loop ops block_name drop_flag st' ts)"

definition block_name_of :: "nat \<Rightarrow> command \<Rightarrow> string" where
  "block_name_of i command_block =
     (case name command_block of
        Some n \<Rightarrow> n
      | None \<Rightarrow> ''command '' @ str_nat i)"

text \<open>
  The loop over \<^verbatim>\<open>enumerate(self.commands)\<close>. The blocks are returned as
  \<open>process_instruction\<close> leaves them in \<^verbatim>\<open>self.commands\<close>.
\<close>

fun blocks_loop ::
  "'rm resource_manager \<Rightarrow> nat \<Rightarrow> 'rm compile_state \<Rightarrow> command list
     \<Rightarrow> error + ('rm compile_state \<times> command list)" where
  "blocks_loop ops i st [] = Inr (st, [])"
| "blocks_loop ops i st (command_block # rest) =
     (case st of (out, tip_loaded, rm) \<Rightarrow>
        and_then (process_instruction command_block) (\<lambda>(command_block', ts).
        and_then (transfers_loop ops (block_name_of i command_block)
                    (drop_tip command_block')
                    (out @ [Comment (block_name_of i command_block)], tip_loaded, rm) ts)
          (\<lambda>st'.
        and_then (blocks_loop ops (Suc i) st' rest) (\<lambda>(st'', rest').
        Inr (st'', command_block' # rest')))))"

text \<open>The closing loop over \<^verbatim>\<open>tip_loaded.items()\<close>.\<close>

definition trailing_drops :: "(string \<times> bool) list \<Rightarrow> action list" where
  "trailing_drops tip_loaded = map (\<lambda>(mount, status). DropTip mount) (filter snd tip_loaded)"

definition create_commands ::
  "'rm resource_manager \<Rightarrow> 'rm \<Rightarrow> command list
     \<Rightarrow> error + (action list \<times> 'rm \<times> command list)" where
  "create_commands ops rm cmds =
     and_then (blocks_loop ops 0 ([], [(''left'', False), (''right'', False)], rm) cmds)
       (\<lambda>((out, tip_loaded, rm'), cmds').
          Inr (out @ trailing_drops tip_loaded, rm', cmds'))"

section \<open>Counting tip actions\<close>

fun is_pick :: "string \<Rightarrow> action \<Rightarrow> bool" where
  "is_pick m (PickTip m' r w) = (m' = m)"
| "is_pick m a = False"

fun is_drop :: "string \<Rightarrow> action \<Rightarrow> bool" where
  "is_drop m (DropTip m') = (m' = m)"
| "is_drop m a = False"

definition picks :: "string \<Rightarrow> action list \<Rightarrow> nat" where
  "picks m out = length (filter (is_pick m) out)"

definition drops :: "string \<Rightarrow> action list \<Rightarrow> nat" where
  "drops m out = length (filter (is_drop m) out)"

text \<open>
  The invariant of the two loops: for each mount, one more pick than drops
  exactly while \<^verbatim>\<open>tip_loaded\<close> holds \<^verbatim>\<open>True\<close> for it; and the dict keeps its two
  keys.
\<close>

definition balanced :: "string \<Rightarrow> 'rm compile_state \<Rightarrow> bool" where
  "balanced m st =
     (case st of (out, tip_loaded, rm) \<Rightarrow>
        picks m out = drops m out + (if map_of tip_loaded m = Some True then 1 else 0))"

definition two_mounts :: "'rm compile_state \<Rightarrow> bool" where
  "two_mounts st =
     (case st of (out, tip_loaded, rm) \<Rightarrow> map fst tip_loaded = [''left'', ''right''])"

section \<open>A deck for the examples\<close>

text \<open>
  A resource manager with a 20 ul pipette on the left mount and a 300 ul
  pipette on the right one, two wellplates under the aliases \<open>src\<close> and
  \<open>dst\<close>, and one tip rack; its state is the number of tips handed out.
\<close>

definition deck :: "nat resource_manager" where
  "deck =
     \<lparr>determine_pipette = (\<lambda>rm v.
          case v of
            IntVol i \<Rightarrow>
              Inr (if 1 \<le> i \<and> i \<le> 20 then Some ''left''
                   else if 20 < i \<and> i \<le> 300 then Some ''right''
                   else None)
          | StrVol s \<Rightarrow> Inl (ExternalError ''TypeError'')),
      get_next_tip = (\<lambda>rm pipette_name. Inr ((''10'', str_nat rm), Suc rm)),
      update_well_usage = (\<lambda>rm slot well. Inr rm),
      mount_to_pipette = (\<lambda>rm. [(''left'', ''p20_single_gen2''), (''right'', ''p300_single_gen2'')]),
      alias_to_location = (\<lambda>rm. [(''src'', ''2''), (''dst'', ''3'')]),
      labware_to_location = (\<lambda>rm.
          [(''corning_96_wellplate_360ul_flat'', ManyLocs [''2'', ''3'']),
           (''opentrons_96_tiprack_20ul'', OneLoc ''10'')])\<rparr>"

section \<open>Blocks that compilation does not rewrite\<close>

text \<open>A field that is a list of one element.\<close>

fun singleton_volume :: "volume_field \<Rightarrow> bool" where
  "singleton_volume (Vols vs) = (length vs = 1)"
| "singleton_volume (Vol v) = False"

fun singleton_location :: "loc_field \<Rightarrow> bool" where
  "singleton_location (Locs ls) = (length ls = 1)"
| "singleton_location (Loc s) = False"

text \<open>The length of a field that is a list of more than one element.\<close>

fun long_volume :: "volume_field \<Rightarrow> nat option" where
  "long_volume (Vols vs) = (if 1 < length vs then Some (length vs) else None)"
| "long_volume (Vol v) = None"

fun long_location :: "loc_field \<Rightarrow> nat option" where
  "long_location (Locs ls) = (if 1 < length ls then Some (length ls) else None)"
| "long_location (Loc s) = None"

text \<open>
  The first location of a field ends in a well identifier: the field is not
  an empty list, and the terminal segment of its first location is not taken
  for a column name.
\<close>

definition ends_in_well :: "loc_field \<Rightarrow> bool" where
  "ends_in_well field =
     (case peek field of
        Inl e \<Rightarrow> False
      | Inr peek_elem \<Rightarrow> \<not> names_column (last (split_char CHR '':'' peek_elem)))"

text \<open>
  A block with plain locations: no \<^verbatim>\<open>":["\<close> in source or destination, and both
  fields end in a well identifier.
\<close>

definition plain_locations :: "command \<Rightarrow> bool" where
  "plain_locations c =
     (\<not> has_bracket (source c) \<and> \<not> has_bracket (destination c) \<and>
      ends_in_well (source c) \<and> ends_in_well (destination c))"

text \<open>A volume that is neither an \<^verbatim>\<open>int\<close> nor a list.\<close>

fun column_volume :: "volume_field \<Rightarrow> bool" where
  "column_volume (Vol (StrVol col)) = True"
| "column_volume v = False"

section \<open>Basic facts\<close>

lemma and_then_simps [simp]:
  "and_then (Inl e) f = Inl e"
  "and_then (Inr x) f = f x"
  by (simp_all add: and_then_def)

lemma and_then_InrE:
  assumes "and_then r f = Inr y"
  obtains x where "r = Inr x" and "f x = Inr y"
  using assms by (cases r) (simp_all add: and_then_def)

lemma zip_map_replicate:
  "zip (map f xs) (replicate (length xs) y) = map (\<lambda>x. (f x, y)) xs"
  by (induction xs) simp_all

lemma zip_replicate_map:
  "zip (replicate (length ys) x) (map g ys) = map (\<lambda>y. (x, g y)) ys"
  by (induction ys) simp_all

section \<open>Broadcasting one list\<close>

lemma broadcast_volumes:
  assumes "volume c = Vols vs" and "1 < length vs"
    and "source c = Loc s" and "destination c = Loc d"
  shows "process_instruction c = Inr (c, map (\<lambda>x. (IntVol x, s, d)) vs)"
  using assms by (simp add: process_instruction_def zip_map_replicate)

lemma broadcast_sources:
  assumes "volume c = Vol v" and "source c = Locs ls" and "1 < length ls"
    and "destination c = Loc d"
  shows "process_instruction c = Inr (c, map (\<lambda>x. (v, x, d)) ls)"
  using assms zip_map_replicate [of "\<lambda>x. x" ls d]
  by (cases v) (simp_all add: process_instruction_def zip_replicate_map)

lemma broadcast_destinations:
  assumes "volume c = Vol v" and "source c = Loc s"
    and "destination c = Locs ls" and "1 < length ls"
  shows "process_instruction c = Inr (c, map (\<lambda>x. (v, s, x)) ls)"
  using assms zip_replicate_map [of ls s "\<lambda>x. x"]
  by (cases v) (simp_all add: process_instruction_def zip_replicate_map)

text \<open>
  C2. When exactly one of volume, source and destination is a list of length
  \<open>n > 1\<close> and the other two are scalars, \<open>process_instruction\<close> raises nothing,
  leaves the block as it is and yields one triple per element of the list, in
  the order of the list, each with the two scalars repeated: \<open>n\<close> triples, the
  \<open>i\<close>-th built from the \<open>i\<close>-th element.
\<close>

theorem broadcast_one_list:
  "(volume c = Vols vs \<and> 1 < length vs \<and> source c = Loc s \<and> destination c = Loc d
      \<longrightarrow> process_instruction c = Inr (c, map (\<lambda>x. (IntVol x, s, d)) vs))
   \<and> (volume c = Vol v \<and> source c = Locs ls \<and> 1 < length ls \<and> destination c = Loc d
      \<longrightarrow> process_instruction c = Inr (c, map (\<lambda>x. (v, x, d)) ls))
   \<and> (volume c = Vol v \<and> source c = Loc s \<and> destination c = Locs ls \<and> 1 < length ls
      \<longrightarrow> process_instruction c = Inr (c, map (\<lambda>x. (v, s, x)) ls))"
  using broadcast_volumes [of c vs s d] broadcast_sources [of c v ls d]
    broadcast_destinations [of c v s ls]
  by blast

theorem broadcast_one_list_witness:
  "process_instruction
     \<lparr>name = None, source = Loc ''src:A1'', destination = Loc ''dst:B1'',
      volume = Vols [50, 100, 75], drop_tip = True\<rparr>
   = Inr (\<lparr>name = None, source = Loc ''src:A1'', destination = Loc ''dst:B1'',
           volume = Vols [50, 100, 75], drop_tip = True\<rparr>,
          [(IntVol 50, ''src:A1'', ''dst:B1''), (IntVol 100, ''src:A1'', ''dst:B1''),
           (IntVol 75, ''src:A1'', ''dst:B1'')])
   \<and> process_instruction
     \<lparr>name = None, source = Locs [''src:A1'', ''src:A2''], destination = Loc ''dst:B1'',
      volume = Vol (IntVol 50), drop_tip = True\<rparr>
   = Inr (\<lparr>name = None, source = Locs [''src:A1'', ''src:A2''], destination = Loc ''dst:B1'',
           volume = Vol (IntVol 50), drop_tip = True\<rparr>,
          [(IntVol 50, ''src:A1'', ''dst:B1''), (IntVol 50, ''src:A2'', ''dst:B1'')])
   \<and> process_instruction
     \<lparr>name = None, source = Loc ''src:A1'', destination = Locs [''dst:B1'', ''dst:B2''],
      volume = Vol (IntVol 50), drop_tip = True\<rparr>
   = Inr (\<lparr>name = None, source = Loc ''src:A1'', destination = Locs [''dst:B1'', ''dst:B2''],
           volume = Vol (IntVol 50), drop_tip = True\<rparr>,
          [(IntVol 50, ''src:A1'', ''dst:B1''), (IntVol 50, ''src:A1'', ''dst:B2'')])"
  using
    broadcast_one_list [where c = "\<lparr>name = None, source = Loc ''src:A1'',
        destination = Loc ''dst:B1'', volume = Vols [50, 100, 75], drop_tip = True\<rparr>"
      and vs = "[50, 100, 75]" and s = "''src:A1''" and d = "''dst:B1''"]
    broadcast_one_list [where c = "\<lparr>name = None, source = Locs [''src:A1'', ''src:A2''],
        destination = Loc ''dst:B1'', volume = Vol (IntVol 50), drop_tip = True\<rparr>"
      and v = "IntVol 50" and ls = "[''src:A1'', ''src:A2'']" and d = "''dst:B1''"]
    broadcast_one_list [where c = "\<lparr>name = None, source = Loc ''src:A1'',
        destination = Locs [''dst:B1'', ''dst:B2''], volume = Vol (IntVol 50),
        drop_tip = True\<rparr>"
      and v = "IntVol 50" and ls = "[''dst:B1'', ''dst:B2'']" and s = "''src:A1''"]
  by simp

section \<open>Loading the resources\<close>

text \<open>
  C10. Whatever the list of resources and whatever the reader of the files,
  \<open>load_resources\<close> raises nothing and leaves \<^verbatim>\<open>self.resources\<close> empty: the guard
  tests the dict that was just set to \<^verbatim>\<open>{}\<close>, so no file is read.
\<close>

theorem load_resources_empty:
  "load_resources read_excel rs = Inr []"
  by (simp add: load_resources_def)

section \<open>Tip state\<close>

lemma keys_update_present:
  "map_of tips k = Some b \<Longrightarrow> map fst (AList.update k v tips) = map fst tips"
proof -
  assume "map_of tips k = Some b"
  then have "(k, b) \<in> set tips" by (rule map_of_SomeD)
  then have "k \<in> set (map fst tips)" by force
  then show ?thesis by (simp only: update_keys if_True)
qed

lemma map_of_update_present:
  "map_of (AList.update k v tips) m = (if m = k then Some v else map_of tips m)"
  by (simp add: update_conv')

lemma pick_tip_effect:
  assumes "pick_tip ops pm (out, tips, rm) = Inr (out', tips', rm')"
  shows "\<exists>r w. out' = out @ [PickTip pm r w] \<and> tips' = AList.update pm True tips"
proof (cases "map_of (mount_to_pipette ops rm) pm")
  case None
  with assms show ?thesis by (simp add: pick_tip_def)
next
  case (Some pn)
  with assms have "and_then (get_next_tip ops rm pn) (\<lambda>((rack_location, well_location), rm').
             Inr (out @ [PickTip pm rack_location well_location],
                  AList.update pm True tips, rm')) = Inr (out', tips', rm')"
    by (simp add: pick_tip_def)
  then show ?thesis
    by (elim and_then_InrE) (auto split: prod.splits)
qed

lemma move_liquid_effect:
  assumes "move_liquid ops pm df (out, tips, rm) (v, src, dst) = Inr (out', tips', rm')"
  shows "\<exists>a b c d. out' = out @ [Aspirate pm v a b] @ [Dispense pm v c d]
                   @ (if df then [DropTip pm] else []) @ [Blank]
               \<and> tips' = (if df then AList.update pm False tips else tips)"
proof -
  from assms [unfolded move_liquid_def prod.case]
  obtain a rm2 c rm3 where
    "Inr (out @ [Aspirate pm v a (last (split_char CHR '':'' src))]
              @ [Dispense pm v c (last (split_char CHR '':'' dst))]
              @ (if df then [DropTip pm] else []) @ [Blank],
          if df then AList.update pm False tips else tips, rm3) = (Inr (out', tips', rm') :: error + _)"
    by (elim and_then_InrE)
  then show ?thesis
    by (simp only: sum.inject prod.inject) blast
qed

lemma transfer_step_effect:
  assumes "transfer_step ops bn df (out, tips, rm) t = Inr (out', tips', rm')"
  shows "\<exists>pm loaded tips1.
           map_of tips pm = Some loaded \<and>
           tips1 = (if loaded then tips else AList.update pm True tips) \<and>
           tips' = (if df then AList.update pm False tips1 else tips1) \<and>
           picks m out' = picks m out + (if \<not> loaded \<and> pm = m then 1 else 0) \<and>
           drops m out' = drops m out + (if df \<and> pm = m then 1 else 0)"
proof -
  obtain v src dst where t: "t = (v, src, dst)"
    by (cases t) auto
  from assms [unfolded transfer_step_def prod.case t]
  obtain found where found: "(case found of
          None \<Rightarrow> Inl (PyException (no_pipette_msg bn v))
        | Some pipette_mount \<Rightarrow>
            (case map_of tips pipette_mount of
               None \<Rightarrow> Inl KeyError
             | Some loaded \<Rightarrow>
                 and_then (if \<not> loaded then pick_tip ops pipette_mount (out, tips, rm)
                           else Inr (out, tips, rm))
                   (\<lambda>st1. move_liquid ops pipette_mount df st1 (v, src, dst))))
       = Inr (out', tips', rm')"
    by (elim and_then_InrE)
  then obtain pm where pm: "found = Some pm"
    by (cases found) simp_all
  from found pm obtain loaded where loaded: "map_of tips pm = Some loaded"
    by (cases "map_of tips pm") simp_all
  from found pm loaded obtain st1 where
    st1: "(if \<not> loaded then pick_tip ops pm (out, tips, rm) else Inr (out, tips, rm)) = Inr st1"
    and mv: "move_liquid ops pm df st1 (v, src, dst) = Inr (out', tips', rm')"
    by (simp only: option.case) (elim and_then_InrE)
  obtain out1 tips1 rm1 where st1_eq: "st1 = (out1, tips1, rm1)"
    by (cases st1) auto
  have one: "tips1 = (if loaded then tips else AList.update pm True tips)
      \<and> picks m out1 = picks m out + (if \<not> loaded \<and> pm = m then 1 else 0)
      \<and> drops m out1 = drops m out"
  proof (cases loaded)
    case True
    with st1 st1_eq show ?thesis by simp
  next
    case False
    with st1 st1_eq have "pick_tip ops pm (out, tips, rm) = Inr (out1, tips1, rm1)"
      by simp
    from pick_tip_effect [OF this] False show ?thesis by (auto simp: picks_def drops_def)
  qed
  from move_liquid_effect [OF mv [unfolded st1_eq]]
  have two: "tips' = (if df then AList.update pm False tips1 else tips1)
      \<and> picks m out' = picks m out1
      \<and> drops m out' = drops m out1 + (if df \<and> pm = m then 1 else 0)"
    by (auto simp: picks_def drops_def)
  from one two loaded show ?thesis
    by (intro exI [of _ pm] exI [of _ loaded] exI [of _ tips1]) simp
qed

lemma transfer_step_balanced:
  assumes "transfer_step ops bn df st t = Inr st'" and "balanced m st"
  shows "balanced m st'"
proof -
  obtain out tips rm where st: "st = (out, tips, rm)" by (cases st) auto
  obtain out' tips' rm' where st': "st' = (out', tips', rm')" by (cases st') auto
  from transfer_step_effect [OF assms(1) [unfolded st st'], of m]
  obtain pm loaded tips1 where
    l: "map_of tips pm = Some loaded" and
    t1: "tips1 = (if loaded then tips else AList.update pm True tips)" and
    t2: "tips' = (if df then AList.update pm False tips1 else tips1)" and
    p: "picks m out' = picks m out + (if \<not> loaded \<and> pm = m then 1 else 0)" and
    d: "drops m out' = drops m out + (if df \<and> pm = m then 1 else 0)"
    by blast
  from assms(2) have b: "picks m out = drops m out + (if map_of tips m = Some True then 1 else 0)"
    by (simp add: balanced_def st)
  have m1: "map_of tips1 m = (if m = pm then Some True else map_of tips m)"
    using l t1 by (cases loaded) (auto simp: map_of_update_present)
  have m2: "map_of tips' m = (if m = pm \<and> df then Some False else map_of tips1 m)"
    using t2 by (auto simp: map_of_update_present)
  show ?thesis
    unfolding balanced_def st' prod.case
    using b p d m1 m2 l by (cases loaded; cases df; cases "m = pm") simp_all
qed

lemma transfer_step_two_mounts:
  assumes "transfer_step ops bn df st t = Inr st'" and "two_mounts st"
  shows "two_mounts st'"
proof -
  obtain out tips rm where st: "st = (out, tips, rm)" by (cases st) auto
  obtain out' tips' rm' where st': "st' = (out', tips', rm')" by (cases st') auto
  from transfer_step_effect [OF assms(1) [unfolded st st'], of undefined]
  obtain pm loaded tips1 where
    l: "map_of tips pm = Some loaded" and
    t1: "tips1 = (if loaded then tips else AList.update pm True tips)" and
    t2: "tips' = (if df then AList.update pm False tips1 else tips1)"
    by blast
  have k1: "map fst tips1 = map fst tips"
    using l t1 by (simp add: keys_update_present)
  have "map_of tips1 pm = Some (loaded \<or> \<not> loaded)"
    using l t1 by (cases loaded) (simp_all add: map_of_update_present)
  then have "map fst tips' = map fst tips1"
    using t2 by (simp add: keys_update_present)
  with k1 assms(2) show ?thesis
    by (simp add: two_mounts_def st st')
qed

lemma transfers_loop_inv:
  assumes "transfers_loop ops bn df st ts = Inr st'" and "balanced m st" and "two_mounts st"
  shows "balanced m st' \<and> two_mounts st'"
  using assms
proof (induction ts arbitrary: st)
  case Nil
  then show ?case by simp
next
  case (Cons t ts)
  from Cons.prems(1) obtain st1 where
    s1: "transfer_step ops bn df st t = Inr st1" and
    s2: "transfers_loop ops bn df st1 ts = Inr st'"
    by (simp only: transfers_loop.simps) (elim and_then_InrE)
  from transfer_step_balanced [OF s1 Cons.prems(2)] transfer_step_two_mounts [OF s1 Cons.prems(3)]
  show ?case using Cons.IH [OF s2] by blast
qed

lemma comment_inv:
  assumes "balanced m (out, tips, rm)" and "two_mounts (out, tips, rm)"
  shows "balanced m (out @ [Comment s], tips, rm) \<and> two_mounts (out @ [Comment s], tips, rm)"
  using assms by (simp add: balanced_def two_mounts_def picks_def drops_def)

lemma blocks_loop_inv:
  assumes "blocks_loop ops i st cmds = Inr (st', cmds')" and "balanced m st" and "two_mounts st"
  shows "balanced m st' \<and> two_mounts st'"
  using assms
proof (induction cmds arbitrary: i st cmds')
  case Nil
  then show ?case by simp
next
  case (Cons c cs)
  obtain out tips rm where st: "st = (out, tips, rm)" by (cases st) auto
  from Cons.prems(1) [unfolded st blocks_loop.simps prod.case]
  obtain p where p: "(case p of (command_block', ts) \<Rightarrow>
        and_then (transfers_loop ops (block_name_of i c) (drop_tip command_block')
                    (out @ [Comment (block_name_of i c)], tips, rm) ts)
          (\<lambda>st'a. and_then (blocks_loop ops (Suc i) st'a cs) (\<lambda>(st'', rest').
             Inr (st'', command_block' # rest')))) = Inr (st', cmds')"
    by (elim and_then_InrE)
  obtain c' ts where pe: "p = (c', ts)" by (cases p) auto
  from p [unfolded pe prod.case] obtain st1 q where
    s1: "transfers_loop ops (block_name_of i c) (drop_tip c')
           (out @ [Comment (block_name_of i c)], tips, rm) ts = Inr st1" and
    s2: "blocks_loop ops (Suc i) st1 cs = Inr q" and
    s3: "(case q of (st'', rest') \<Rightarrow> Inr (st'', c' # rest')) = (Inr (st', cmds') :: error + _)"
    by (elim and_then_InrE)
  obtain st2 cs2 where q: "q = (st2, cs2)" by (cases q) auto
  from s3 q have e: "st2 = st'" by simp
  from comment_inv [of m out tips rm "block_name_of i c"] Cons.prems(2,3)
  have "balanced m (out @ [Comment (block_name_of i c)], tips, rm)"
    and "two_mounts (out @ [Comment (block_name_of i c)], tips, rm)"
    by (simp_all add: st)
  from transfers_loop_inv [OF s1 this]
  have "balanced m st1" and "two_mounts st1" by simp_all
  from Cons.IH [OF s2 [unfolded q e] this] show ?case .
qed

lemma trailing_drops_count:
  assumes "balanced m (out, tips, rm)" and "two_mounts (out, tips, rm)"
  shows "picks m (out @ trailing_drops tips) = drops m (out @ trailing_drops tips)"
proof -
  from assms(2) obtain a b where tips: "tips = [(''left'', a), (''right'', b)]"
    by (auto simp: two_mounts_def map_eq_Cons_conv)
  from assms(1) show ?thesis
    unfolding balanced_def prod.case tips trailing_drops_def
    by (cases a; cases b; cases "m = ''left''"; cases "m = ''right''")
       (simp_all add: picks_def drops_def)
qed

text \<open>
  C6. Whenever \<open>create_commands\<close> returns a command sequence, the sequence
  holds, for every mount, as many pick-tip commands as drop-tip commands: a
  pick is emitted only while \<^verbatim>\<open>tip_loaded\<close> is false for the mount, a drop
  resets it, and the closing loop drops once for each mount still loaded.
\<close>

theorem tip_balance:
  assumes "create_commands ops rm cmds = Inr (out, rm', cmds')"
  shows "picks m out = drops m out"
proof -
  from assms [unfolded create_commands_def]
  obtain r where r: "blocks_loop ops 0 ([], [(''left'', False), (''right'', False)], rm) cmds = Inr r"
    and fin: "(\<lambda>((out, tip_loaded, rm'), cmds').
          Inr (out @ trailing_drops tip_loaded, rm', cmds')) r = (Inr (out, rm', cmds') :: error + _)"
    by (rule and_then_InrE)
  obtain out0 tips0 rm0 cs0 where re: "r = ((out0, tips0, rm0), cs0)"
    by (cases r) auto
  have "balanced m ([], [(''left'', False), (''right'', False)], rm)"
    and "two_mounts ([], [(''left'', False), (''right'', False)], rm)"
    by (simp_all add: balanced_def two_mounts_def picks_def drops_def)
  from blocks_loop_inv [OF r [unfolded re] this]
  have "balanced m (out0, tips0, rm0)" and "two_mounts (out0, tips0, rm0)" by simp_all
  from trailing_drops_count [OF this]
  have "picks m (out0 @ trailing_drops tips0) = drops m (out0 @ trailing_drops tips0)" .
  moreover from fin re have "out = out0 @ trailing_drops tips0" by simp
  ultimately show ?thesis by simp
qed

theorem tip_balance_witness:
  "create_commands deck 0
     [\<lparr>name = Some ''fill'', source = Loc ''src:A1'',
       destination = Locs [''dst:B1'', ''dst:B2''], volume = Vol (IntVol 15),
       drop_tip = False\<rparr>,
      \<lparr>name = None, source = Loc ''src:A2'', destination = Loc ''dst:B3'',
       volume = Vol (IntVol 100), drop_tip = True\<rparr>]
   = Inr ([Comment ''fill'', PickTip ''left'' ''10'' ''0'',
           Aspirate ''left'' (IntVol 15) (Some ''2'') ''A1'',
           Dispense ''left'' (IntVol 15) (Some ''3'') ''B1'', Blank,
           Aspirate ''left'' (IntVol 15) (Some ''2'') ''A1'',
           Dispense ''left'' (IntVol 15) (Some ''3'') ''B2'', Blank,
           Comment ''command 1'', PickTip ''right'' ''10'' ''1'',
           Aspirate ''right'' (IntVol 100) (Some ''2'') ''A2'',
           Dispense ''right'' (IntVol 100) (Some ''3'') ''B3'', DropTip ''right'', Blank,
           DropTip ''left''],
          2,
          [\<lparr>name = Some ''fill'', source = Loc ''src:A1'',
            destination = Locs [''dst:B1'', ''dst:B2''], volume = Vol (IntVol 15),
            drop_tip = False\<rparr>,
           \<lparr>name = None, source = Loc ''src:A2'', destination = Loc ''dst:B3'',
            volume = Vol (IntVol 100), drop_tip = True\<rparr>])
   \<and> picks ''left''
       [Comment ''fill'', PickTip ''left'' ''10'' ''0'',
        Aspirate ''left'' (IntVol 15) (Some ''2'') ''A1'',
        Dispense ''left'' (IntVol 15) (Some ''3'') ''B1'', Blank,
        Aspirate ''left'' (IntVol 15) (Some ''2'') ''A1'',
        Dispense ''left'' (IntVol 15) (Some ''3'') ''B2'', Blank,
        Comment ''command 1'', PickTip ''right'' ''10'' ''1'',
        Aspirate ''right'' (IntVol 100) (Some ''2'') ''A2'',
        Dispense ''right'' (IntVol 100) (Some ''3'') ''B3'', DropTip ''right'', Blank,
        DropTip ''left'']
     = drops ''left''
       [Comment ''fill'', PickTip ''left'' ''10'' ''0'',
        Aspirate ''left'' (IntVol 15) (Some ''2'') ''A1'',
        Dispense ''left'' (IntVol 15) (Some ''3'') ''B1'', Blank,
        Aspirate ''left'' (IntVol 15) (Some ''2'') ''A1'',
        Dispense ''left'' (IntVol 15) (Some ''3'') ''B2'', Blank,
        Comment ''command 1'', PickTip ''right'' ''10'' ''1'',
        Aspirate ''right'' (IntVol 100) (Some ''2'') ''A2'',
        Dispense ''right'' (IntVol 100) (Some ''3'') ''B3'', DropTip ''right'', Blank,
        DropTip ''left'']"
proof -
  have run: "create_commands deck 0
     [\<lparr>name = Some ''fill'', source = Loc ''src:A1'',
       destination = Locs [''dst:B1'', ''dst:B2''], volume = Vol (IntVol 15),
       drop_tip = False\<rparr>,
      \<lparr>name = None, source = Loc ''src:A2'', destination = Loc ''dst:B3'',
       volume = Vol (IntVol 100), drop_tip = True\<rparr>]
   = Inr ([Comment ''fill'', PickTip ''left'' ''10'' ''0'',
           Aspirate ''left'' (IntVol 15) (Some ''2'') ''A1'',
           Dispense ''left'' (IntVol 15) (Some ''3'') ''B1'', Blank,
           Aspirate ''left'' (IntVol 15) (Some ''2'') ''A1'',
           Dispense ''left'' (IntVol 15) (Some ''3'') ''B2'', Blank,
           Comment ''command 1'', PickTip ''right'' ''10'' ''1'',
           Aspirate ''right'' (IntVol 100) (Some ''2'') ''A2'',
           Dispense ''right'' (IntVol 100) (Some ''3'') ''B3'', DropTip ''right'', Blank,
           DropTip ''left''],
          2,
          [\<lparr>name = Some ''fill'', source = Loc ''src:A1'',
            destination = Locs [''dst:B1'', ''dst:B2''], volume = Vol (IntVol 15),
            drop_tip = False\<rparr>,
           \<lparr>name = None, source = Loc ''src:A2'', destination = Loc ''dst:B3'',
            volume = Vol (IntVol 100), drop_tip = True\<rparr>])"
    by code_simp
  from tip_balance [OF run, of "''left''"] run show ?thesis
    by (rule_tac conjI)
qed

section \<open>Preprocessing at concrete recipes\<close>

text \<open>
  C1. The recipe has two blocks; the first takes its volume from the column
  \<open>vol\<close>. Through \<open>load_config\<close> the first block keeps the column name as its
  volume and nothing is raised. With the table placed in \<^verbatim>\<open>self.resources\<close> and
  both blocks naming the column, preprocessing turns the volume of the last
  block into the integers of the column and leaves the first block's volume
  the column name.
\<close>

theorem volume_column_only_last_block:
  "load_config str_int Inr (\<lambda>path. Inr [(''vol'', [5, 10])]) (\<lambda>config. Inr (0 :: nat))
     \<lparr>resources = [\<lparr>resource_name = ''plate_map'', location = ''plate_map.xlsx''\<rparr>],
      commands =
        [\<lparr>name = Some ''first'', source = Loc ''src:A1'', destination = Loc ''dst:B1'',
          volume = Vol (StrVol ''vol''), drop_tip = True\<rparr>,
         \<lparr>name = Some ''second'', source = Loc ''src:A2'', destination = Loc ''dst:B2'',
          volume = Vol (IntVol 5), drop_tip = True\<rparr>]\<rparr>
   = Inr ([], 0,
        [\<lparr>name = Some ''first'', source = Loc ''src:A1'', destination = Loc ''dst:B1'',
          volume = Vol (StrVol ''vol''), drop_tip = True\<rparr>,
         \<lparr>name = Some ''second'', source = Loc ''src:A2'', destination = Loc ''dst:B2'',
          volume = Vol (IntVol 5), drop_tip = True\<rparr>])
   \<and> postprocess_commands str_int Inr [(''plate_map'', [(''vol'', [5, 10])])]
        [\<lparr>name = Some ''first'', source = Loc ''src:A1'', destination = Loc ''dst:B1'',
          volume = Vol (StrVol ''vol''), drop_tip = True\<rparr>,
         \<lparr>name = Some ''second'', source = Loc ''src:A2'', destination = Loc ''dst:B2'',
          volume = Vol (StrVol ''vol''), drop_tip = True\<rparr>]
   = Inr [\<lparr>name = Some ''first'', source = Loc ''src:A1'', destination = Loc ''dst:B1'',
           volume = Vol (StrVol ''vol''), drop_tip = True\<rparr>,
          \<lparr>name = Some ''second'', source = Loc ''src:A2'', destination = Loc ''dst:B2'',
           volume = Vols [5, 10], drop_tip = True\<rparr>]"
  by code_simp

text \<open>
  C5. The test on the destination reads the terminal segment of the source.
  A destination ending in the column name \<open>wells\<close> behind a source ending in a
  well is left as it is, through \<open>load_config\<close> and also with the table in
  \<^verbatim>\<open>self.resources\<close>; a destination ending in the well \<open>B1\<close> behind a source
  ending in \<open>wells\<close> is replaced by the rows of \<open>wells\<close>.
\<close>

theorem destination_tested_on_source_segment:
  "names_column ''wells'' \<and> \<not> names_column ''B1''
   \<and> load_config (\<lambda>cell. cell) (\<lambda>cell. Inl ValueError)
        (\<lambda>path. Inr [(''wells'', [''A1'', ''A2''])]) (\<lambda>config. Inr (0 :: nat))
        \<lparr>resources = [\<lparr>resource_name = ''plate_map'', location = ''plate_map.xlsx''\<rparr>],
         commands =
           [\<lparr>name = Some ''spread'', source = Loc ''src:A2'',
             destination = Loc ''dst:wells'', volume = Vol (IntVol 10), drop_tip = True\<rparr>]\<rparr>
      = Inr ([], 0,
           [\<lparr>name = Some ''spread'', source = Loc ''src:A2'',
             destination = Loc ''dst:wells'', volume = Vol (IntVol 10), drop_tip = True\<rparr>])
   \<and> postprocess_commands (\<lambda>cell. cell) (\<lambda>cell. Inl ValueError)
        [(''plate_map'', [(''wells'', [''A1'', ''A2''])])]
        [\<lparr>name = Some ''collect'', source = Loc ''src:wells'', destination = Loc ''dst:B1'',
          volume = Vol (IntVol 10), drop_tip = True\<rparr>,
         \<lparr>name = Some ''spread'', source = Loc ''src:A2'', destination = Loc ''dst:wells'',
          volume = Vol (IntVol 10), drop_tip = True\<rparr>]
      = Inr [\<lparr>name = Some ''collect'', source = Locs [''src:A1'', ''src:A2''],
              destination = Locs [''dst:A1'', ''dst:A2''], volume = Vol (IntVol 10),
              drop_tip = True\<rparr>,
             \<lparr>name = Some ''spread'', source = Loc ''src:A2'',
              destination = Loc ''dst:wells'', volume = Vol (IntVol 10), drop_tip = True\<rparr>]"
  by code_simp

section \<open>One-element lists\<close>

text \<open>
  C3. A one-element list is not treated as its element. A one-element volume
  list with a scalar source and destination is replaced by its element, but
  \<^verbatim>\<open>iter_len\<close> stays 0 and no triple is yielded. With a scalar volume and two
  destinations, a one-element source list makes the block raise, while the
  same block with the source written as a string yields two triples. With
  three volumes the source list is replaced by its element and \<^verbatim>\<open>iter_len\<close>
  becomes the length of that string: the source \<open>A1\<close> gives two triples, the
  string source three.
\<close>

theorem singleton_list_differs_from_scalar:
  "process_instruction
     \<lparr>name = None, source = Loc ''src:A1'', destination = Loc ''dst:B1'',
      volume = Vols [50], drop_tip = True\<rparr>
   = Inr (\<lparr>name = None, source = Loc ''src:A1'', destination = Loc ''dst:B1'',
           volume = Vol (IntVol 50), drop_tip = True\<rparr>, [])
   \<and> process_instruction
     \<lparr>name = None, source = Loc ''src:A1'', destination = Loc ''dst:B1'',
      volume = Vol (IntVol 50), drop_tip = True\<rparr>
   = Inr (\<lparr>name = None, source = Loc ''src:A1'', destination = Loc ''dst:B1'',
           volume = Vol (IntVol 50), drop_tip = True\<rparr>,
          [(IntVol 50, ''src:A1'', ''dst:B1'')])
   \<and> process_instruction
     \<lparr>name = None, source = Locs [''src:A1''], destination = Locs [''dst:B1'', ''dst:B2''],
      volume = Vol (IntVol 50), drop_tip = True\<rparr>
   = Inl (PyException destination_msg)
   \<and> process_instruction
     \<lparr>name = None, source = Loc ''src:A1'', destination = Locs [''dst:B1'', ''dst:B2''],
      volume = Vol (IntVol 50), drop_tip = True\<rparr>
   = Inr (\<lparr>name = None, source = Loc ''src:A1'', destination = Locs [''dst:B1'', ''dst:B2''],
           volume = Vol (IntVol 50), drop_tip = True\<rparr>,
          [(IntVol 50, ''src:A1'', ''dst:B1''), (IntVol 50, ''src:A1'', ''dst:B2'')])
   \<and> process_instruction
     \<lparr>name = None, source = Locs [''A1''], destination = Loc ''dst:B1'',
      volume = Vols [10, 20, 30], drop_tip = True\<rparr>
   = Inr (\<lparr>name = None, source = Loc ''A1'', destination = Loc ''dst:B1'',
           volume = Vols [10, 20, 30], drop_tip = True\<rparr>,
          [(IntVol 10, ''A1'', ''dst:B1''), (IntVol 20, ''A1'', ''dst:B1'')])
   \<and> process_instruction
     \<lparr>name = None, source = Loc ''A1'', destination = Loc ''dst:B1'',
      volume = Vols [10, 20, 30], drop_tip = True\<rparr>
   = Inr (\<lparr>name = None, source = Loc ''A1'', destination = Loc ''dst:B1'',
           volume = Vols [10, 20, 30], drop_tip = True\<rparr>,
          [(IntVol 10, ''A1'', ''dst:B1''), (IntVol 20, ''A1'', ''dst:B1''),
           (IntVol 30, ''A1'', ''dst:B1'')])"
  by code_simp

text \<open>
  Without a one-element source list the check does what the docstring says:
  two lists of more than one element and of different lengths make the block
  raise one of the two exceptions.
\<close>

lemma unequal_lengths_rejected:
  assumes "\<not> singleton_location (source c)"
    and "(long_volume (volume c) = Some n \<and> long_location (source c) = Some k \<and> n \<noteq> k)
       \<or> (long_volume (volume c) = Some n \<and> long_location (destination c) = Some k \<and> n \<noteq> k)
       \<or> (long_location (source c) = Some n \<and> long_location (destination c) = Some k \<and> n \<noteq> k)"
  shows "process_instruction c = Inl (PyException source_msg)
       \<or> process_instruction c = Inl (PyException destination_msg)"
  using assms
  by (cases "volume c" rule: volume_step.cases; cases "source c"; cases "destination c")
     (auto simp: process_instruction_def split: if_splits)

text \<open>
  C4. Two volumes and four destinations, with a one-element source list whose
  string has four characters: nothing is raised and two triples are yielded.
\<close>

theorem unequal_lengths_not_rejected:
  "process_instruction
     \<lparr>name = None, source = Locs [''p:A1''],
      destination = Locs [''d:B1'', ''d:B2'', ''d:B3'', ''d:B4''],
      volume = Vols [1, 2], drop_tip = True\<rparr>
   = Inr (\<lparr>name = None, source = Loc ''p:A1'',
           destination = Locs [''d:B1'', ''d:B2'', ''d:B3'', ''d:B4''],
           volume = Vols [1, 2], drop_tip = True\<rparr>,
          [(IntVol 1, ''p:A1'', ''d:B1''), (IntVol 2, ''p:A1'', ''d:B2'')])"
  by code_simp

section \<open>Deck slot of a location\<close>

text \<open>
  \<open>split_char\<close> always returns a segment, so the first and the last segment
  that the model takes with \<open>hd\<close> and \<open>last\<close> exist, as \<^verbatim>\<open>[0]\<close> and \<^verbatim>\<open>[-1]\<close> do
  in the source.
\<close>

lemma split_char_nonempty: "split_char sep s \<noteq> []"
  by (induction s) (auto split: list.splits)

lemma split_char_no_sep: "sep \<notin> set s \<Longrightarrow> split_char sep s = [s]"
  by (induction s) auto

lemma split_char_append: "sep \<notin> set a \<Longrightarrow> split_char sep (a @ sep # rest) = a # split_char sep rest"
  by (induction a) auto

lemma wellplate_scan_Some:
  "wellplate_scan labware found = Some l \<Longrightarrow>
     found = Some l \<or>
     (\<exists>nm loc. (nm, loc) \<in> set labware \<and> str_contains ''well'' nm \<and>
        (loc = OneLoc l \<or> (\<exists>ls. loc = ManyLocs (l # ls))))"
proof (induction labware arbitrary: found)
  case Nil
  then show ?case by simp
next
  case (Cons p labware)
  obtain nm loc where p: "p = (nm, loc)" by (cases p) auto
  from Cons.prems [unfolded p wellplate_scan.simps]
  have "(if str_contains ''well'' nm then
          (case loc of ManyLocs [] \<Rightarrow> found | ManyLocs (l # ls) \<Rightarrow> Some l | OneLoc l \<Rightarrow> Some l)
        else found) = Some l \<or>
     (\<exists>nm loc. (nm, loc) \<in> set labware \<and> str_contains ''well'' nm \<and>
        (loc = OneLoc l \<or> (\<exists>ls. loc = ManyLocs (l # ls))))"
    by (rule Cons.IH)
  then show ?case
    unfolding p
    by (auto split: if_splits labware_location.splits list.splits)
qed

lemma wellplate_scan_append:
  "wellplate_scan (xs @ ys) found = wellplate_scan ys (wellplate_scan xs found)"
  by (induction xs found rule: wellplate_scan.induct) simp_all

lemma wellplate_scan_skips:
  assumes "\<forall>(nm, loc) \<in> set rest. str_contains ''well'' nm \<longrightarrow> loc = ManyLocs []"
  shows "wellplate_scan rest found = found"
  using assms by (induction rest found rule: wellplate_scan.induct) auto

lemma wellplate_scan_last_wins:
  assumes "str_contains ''well'' nm" and "loc = OneLoc l \<or> loc = ManyLocs (l # ls)"
    and "\<forall>(nm', loc') \<in> set post. str_contains ''well'' nm' \<longrightarrow> loc' = ManyLocs []"
  shows "wellplate_scan (pre @ (nm, loc) # post) found = Some l"
proof -
  from assms(1,2) have "wellplate_scan [(nm, loc)] (wellplate_scan pre found) = Some l"
    by auto
  then have "wellplate_scan (pre @ [(nm, loc)]) found = Some l"
    by (simp only: wellplate_scan_append)
  then have "wellplate_scan ((pre @ [(nm, loc)]) @ post) found = Some l"
    using wellplate_scan_skips [OF assms(3)] by (simp only: wellplate_scan_append)
  then show ?thesis by simp
qed

lemma parse_no_alias:
  "CHR '':'' \<notin> set tok \<Longrightarrow>
     parse_wellplate_location aliases labware tok = Inr (wellplate_scan labware None)"
  by (simp add: parse_wellplate_location_def)

lemma parse_alias:
  assumes "CHR '':'' \<notin> set plate" and "CHR '':'' \<notin> set w"
  shows "parse_wellplate_location aliases labware (plate @ '':'' @ w) =
     (case map_of aliases plate of None \<Rightarrow> Inl KeyError | Some l \<Rightarrow> Inr (Some l))"
  using assms
  by (simp add: parse_wellplate_location_def split_char_append split_char_no_sep)

text \<open>
  C7, as amended. A location with no \<^verbatim>\<open>:\<close> is never taken as a slot itself.
  Whatever the location, the answer is the location (the first one of a list)
  of the last labware in the deck whose name contains \<open>well\<close> and whose list
  of locations is not empty: every such labware before it is overwritten. The
  answer is \<^verbatim>\<open>None\<close> when the deck has no such labware. A location
  \<open>plate:well\<close> with one \<^verbatim>\<open>:\<close> is answered by the alias table at \<open>plate\<close>, with
  \<^verbatim>\<open>KeyError\<close> when the alias is not there.
\<close>

theorem wellplate_location_resolution:
  "(CHR '':'' \<notin> set tok \<and> labware = pre @ (nm, loc) # post
      \<and> str_contains ''well'' nm \<and> (loc = OneLoc l \<or> loc = ManyLocs (l # ls))
      \<and> (\<forall>(nm', loc') \<in> set post. str_contains ''well'' nm' \<longrightarrow> loc' = ManyLocs [])
      \<longrightarrow> parse_wellplate_location aliases labware tok = Inr (Some l))
   \<and> (CHR '':'' \<notin> set tok
      \<and> (\<forall>(nm', loc') \<in> set labware. str_contains ''well'' nm' \<longrightarrow> loc' = ManyLocs [])
      \<longrightarrow> parse_wellplate_location aliases labware tok = Inr None)
   \<and> (CHR '':'' \<notin> set plate \<and> CHR '':'' \<notin> set w \<longrightarrow>
        parse_wellplate_location aliases labware (plate @ '':'' @ w) =
          (case map_of aliases plate of None \<Rightarrow> Inl KeyError | Some l \<Rightarrow> Inr (Some l)))"
proof (intro conjI impI)
  assume h: "CHR '':'' \<notin> set tok \<and> labware = pre @ (nm, loc) # post
      \<and> str_contains ''well'' nm \<and> (loc = OneLoc l \<or> loc = ManyLocs (l # ls))
      \<and> (\<forall>(nm', loc') \<in> set post. str_contains ''well'' nm' \<longrightarrow> loc' = ManyLocs [])"
  then have "wellplate_scan labware None = Some l"
    using wellplate_scan_last_wins [of nm loc l ls post pre None] by blast
  with h show "parse_wellplate_location aliases labware tok = Inr (Some l)"
    by (simp add: parse_no_alias)
next
  assume h: "CHR '':'' \<notin> set tok
      \<and> (\<forall>(nm', loc') \<in> set labware. str_contains ''well'' nm' \<longrightarrow> loc' = ManyLocs [])"
  then have "wellplate_scan labware None = None"
    using wellplate_scan_skips [of labware None] by blast
  with h show "parse_wellplate_location aliases labware tok = Inr None"
    by (simp add: parse_no_alias)
next
  assume "CHR '':'' \<notin> set plate \<and> CHR '':'' \<notin> set w"
  then show "parse_wellplate_location aliases labware (plate @ '':'' @ w) =
          (case map_of aliases plate of None \<Rightarrow> Inl KeyError | Some l \<Rightarrow> Inr (Some l))"
    using parse_alias [of plate w aliases labware] by blast
qed

theorem wellplate_location_resolution_witness:
  "parse_wellplate_location [(''src'', ''2''), (''dst'', ''3'')]
     [(''corning_96_wellplate_360ul_flat'', OneLoc ''4''),
      (''nest_96_wellplate_100ul_pcr_full_skirt'', ManyLocs [''7'', ''8'']),
      (''opentrons_96_tiprack_20ul'', OneLoc ''10'')] ''A1'' = Inr (Some ''7'')
   \<and> parse_wellplate_location [(''src'', ''2''), (''dst'', ''3'')]
     [(''opentrons_96_tiprack_20ul'', OneLoc ''10'')] ''A1'' = Inr None
   \<and> parse_wellplate_location [(''src'', ''2''), (''dst'', ''3'')]
     [(''opentrons_96_tiprack_20ul'', OneLoc ''10'')] (''src'' @ '':'' @ ''A1'') = Inr (Some ''2'')"
proof -
  have a: "CHR '':'' \<notin> set ''A1''" and b: "CHR '':'' \<notin> set ''src''"
    by simp_all
  have well: "str_contains ''well'' ''nest_96_wellplate_100ul_pcr_full_skirt''"
    by code_simp
  have rack: "\<not> str_contains ''well'' ''opentrons_96_tiprack_20ul''"
    by code_simp
  have last_one: "parse_wellplate_location [(''src'', ''2''), (''dst'', ''3'')]
     [(''corning_96_wellplate_360ul_flat'', OneLoc ''4''),
      (''nest_96_wellplate_100ul_pcr_full_skirt'', ManyLocs [''7'', ''8'']),
      (''opentrons_96_tiprack_20ul'', OneLoc ''10'')] ''A1'' = Inr (Some ''7'')"
    using wellplate_location_resolution [where tok = "''A1''"
        and labware = "[(''corning_96_wellplate_360ul_flat'', OneLoc ''4''),
          (''nest_96_wellplate_100ul_pcr_full_skirt'', ManyLocs [''7'', ''8'']),
          (''opentrons_96_tiprack_20ul'', OneLoc ''10'')]"
        and pre = "[(''corning_96_wellplate_360ul_flat'', OneLoc ''4'')]"
        and nm = "''nest_96_wellplate_100ul_pcr_full_skirt''"
        and loc = "ManyLocs [''7'', ''8'']" and l = "''7''" and ls = "[''8'']"
        and post = "[(''opentrons_96_tiprack_20ul'', OneLoc ''10'')]"
        and aliases = "[(''src'', ''2''), (''dst'', ''3'')]"]
      a well rack
    by simp
  have none_and_alias: "parse_wellplate_location [(''src'', ''2''), (''dst'', ''3'')]
     [(''opentrons_96_tiprack_20ul'', OneLoc ''10'')] ''A1'' = Inr None
   \<and> parse_wellplate_location [(''src'', ''2''), (''dst'', ''3'')]
     [(''opentrons_96_tiprack_20ul'', OneLoc ''10'')] (''src'' @ '':'' @ ''A1'') = Inr (Some ''2'')"
    using wellplate_location_resolution [where tok = "''A1''"
        and labware = "[(''opentrons_96_tiprack_20ul'', OneLoc ''10'')]"
        and plate = "''src''" and w = "''A1''"
        and aliases = "[(''src'', ''2''), (''dst'', ''3'')]"]
      a b rack
    by simp
  from last_one none_and_alias show ?thesis by blast
qed

text \<open>
  The claim as stated fails: with one wellplate in slot 2, the location \<open>A1\<close>
  resolves to slot 2, not to \<open>A1\<close>.
\<close>

theorem direct_slot_counterexample:
  "parse_wellplate_location [(''src'', ''2''), (''dst'', ''3'')]
     [(''corning_96_wellplate_360ul_flat'', OneLoc ''2'')] ''A1'' = Inr (Some ''2'')
   \<and> Some ''2'' \<noteq> Some ''A1''"
  by code_simp

section \<open>Messages of the exceptions\<close>










lemma blocks_loop_Inr:
  assumes "process_instruction c = Inr (c', ts)"
    and "transfers_loop ops (block_name_of i c) (drop_tip c')
           (out @ [Comment (block_name_of i c)], tips, rm) ts = Inr st1"
  shows "blocks_loop ops i (out, tips, rm) (c # rest) =
     and_then (blocks_loop ops (Suc i) st1 rest) (\<lambda>(st2, rest'). Inr (st2, c' # rest'))"
  using assms by simp








section \<open>Rewriting of the loaded blocks\<close>

lemma volume_step_same: "\<not> singleton_volume v \<Longrightarrow> fst (volume_step v) = v"
  by (cases v) auto

lemma location_step_same:
  "\<not> singleton_location f \<Longrightarrow> location_step msg n f = Inr (f', n') \<Longrightarrow> f' = f"
  by (cases f) (auto split: if_splits)

lemma process_instruction_same:
  assumes "\<not> singleton_volume (volume c)" and "\<not> singleton_location (source c)"
    and "\<not> singleton_location (destination c)"
    and "process_instruction c = Inr (c', ts)"
  shows "c' = c"
proof (cases "scalar_triple (volume c) (source c) (destination c)")
  case (Some t)
  with assms(4) show ?thesis by (simp add: process_instruction_def)
next
  case None
  obtain v n0 where vs: "volume_step (volume c) = (v, n0)"
    by (cases "volume_step (volume c)") auto
  with assms(1) have v: "v = volume c"
    using volume_step_same [of "volume c"] by simp
  from assms(4) None vs obtain s n1 where
    ss: "location_step source_msg n0 (source c) = Inr (s, n1)"
    by (auto simp: process_instruction_def split: sum.splits)
  from assms(4) None vs ss obtain d n2 where
    ds: "location_step destination_msg n1 (destination c) = Inr (d, n2)"
    by (auto simp: process_instruction_def split: sum.splits)
  from assms(4) None vs ss ds have "c' = c\<lparr>source := s, destination := d, volume := v\<rparr>"
    by (simp add: process_instruction_def)
  with v location_step_same [OF assms(2) ss] location_step_same [OF assms(3) ds]
  show ?thesis by simp
qed

lemma postprocess_command_plain:
  assumes "plain_locations c"
  shows "postprocess_command cell_str res key c = Inr c"
proof -
  from assms have sb: "expand_alias (source c) = Inr (source c)"
    and db: "expand_alias (destination c) = Inr (destination c)"
    by (simp_all add: plain_locations_def expand_alias_def)
  from assms obtain p where p: "peek (source c) = Inr p"
    and np: "\<not> names_column (last (split_char CHR '':'' p))"
    by (cases "peek (source c)") (simp_all add: plain_locations_def ends_in_well_def)
  from assms obtain q where q: "peek (destination c) = Inr q"
    by (cases "peek (destination c)") (simp_all add: plain_locations_def ends_in_well_def)
  from sb db p np q show ?thesis
    by (simp add: postprocess_command_def read_from_file_def)
qed

lemma map_result_id:
  assumes "\<And>x. x \<in> set xs \<Longrightarrow> f x = Inr x"
  shows "map_result f xs = Inr xs"
  using assms by (induction xs) simp_all

lemma resolve_volume_plain:
  assumes "\<not> column_volume (volume c)"
  shows "resolve_volume cell_int res key c = Inr c"
  using assms
  by (cases "volume c" rule: column_volume.cases) (simp_all add: resolve_volume_def)

lemma postprocess_commands_plain:
  assumes "cmds \<noteq> []"
    and "\<forall>c \<in> set cmds. plain_locations c \<and> \<not> column_volume (volume c)"
  shows "postprocess_commands cell_str cell_int res cmds = Inr cmds"
proof -
  from assms(2) have "map_result (postprocess_command cell_str res (first_key res)) cmds
      = Inr cmds"
    by (intro map_result_id postprocess_command_plain) simp
  moreover from assms have "resolve_volume cell_int res (first_key res) (last cmds)
      = Inr (last cmds)"
    by (intro resolve_volume_plain) simp
  ultimately show ?thesis
    using assms(1) by (simp add: postprocess_commands_def)
qed

text \<open>
  C9, as amended. Compilation rewrites blocks in place, so the fields are kept
  only on these conditions. For a recipe with at least one block, in which
  every block has plain locations (no \<^verbatim>\<open>":["\<close>, source and destination both
  ending in a well identifier) and no block takes its volume from a column,
  preprocessing raises nothing and returns the commands as loaded.
  \<open>process_instruction\<close>, when it succeeds, leaves a block as it is if none of
  its three fields is a one-element list.
\<close>

theorem blocks_left_unchanged:
  "(cmds \<noteq> [] \<and> (\<forall>c \<in> set cmds. plain_locations c \<and> \<not> column_volume (volume c))
      \<longrightarrow> postprocess_commands cell_str cell_int res cmds = Inr cmds)
   \<and> (\<not> singleton_volume (volume c) \<and> \<not> singleton_location (source c)
      \<and> \<not> singleton_location (destination c) \<and> process_instruction c = Inr (c', ts)
      \<longrightarrow> c' = c)"
  using postprocess_commands_plain [of cmds cell_str cell_int res]
    process_instruction_same [of c c' ts]
  by blast

theorem blocks_left_unchanged_witness:
  "postprocess_commands str_int Inr [(''plate_map'', [(''vol'', [5, 10])])]
       [\<lparr>name = Some ''fill'', source = Loc ''src:A1'',
       destination = Locs [''dst:B1'', ''dst:B2''], volume = Vol (IntVol 15),
       drop_tip = False\<rparr>,
        \<lparr>name = None, source = Loc ''src:A2'', destination = Loc ''dst:B3'',
       volume = Vols [100, 50], drop_tip = True\<rparr>]
     = Inr [\<lparr>name = Some ''fill'', source = Loc ''src:A1'',
       destination = Locs [''dst:B1'', ''dst:B2''], volume = Vol (IntVol 15),
       drop_tip = False\<rparr>,
        \<lparr>name = None, source = Loc ''src:A2'', destination = Loc ''dst:B3'',
       volume = Vols [100, 50], drop_tip = True\<rparr>]
   \<and> process_instruction
       \<lparr>name = Some ''fill'', source = Loc ''src:A1'',
       destination = Locs [''dst:B1'', ''dst:B2''], volume = Vol (IntVol 15),
       drop_tip = False\<rparr>
     = Inr (\<lparr>name = Some ''fill'', source = Loc ''src:A1'',
       destination = Locs [''dst:B1'', ''dst:B2''], volume = Vol (IntVol 15),
       drop_tip = False\<rparr>,
            [(IntVol 15, ''src:A1'', ''dst:B1''), (IntVol 15, ''src:A1'', ''dst:B2'')])"
proof -
  have plain: "plain_locations
       \<lparr>name = Some ''fill'', source = Loc ''src:A1'',
       destination = Locs [''dst:B1'', ''dst:B2''], volume = Vol (IntVol 15),
       drop_tip = False\<rparr>"
    "plain_locations
       \<lparr>name = None, source = Loc ''src:A2'', destination = Loc ''dst:B3'',
       volume = Vols [100, 50], drop_tip = True\<rparr>"
    by code_simp+
  have run: "process_instruction
       \<lparr>name = Some ''fill'', source = Loc ''src:A1'',
       destination = Locs [''dst:B1'', ''dst:B2''], volume = Vol (IntVol 15),
       drop_tip = False\<rparr>
     = Inr (\<lparr>name = Some ''fill'', source = Loc ''src:A1'',
       destination = Locs [''dst:B1'', ''dst:B2''], volume = Vol (IntVol 15),
       drop_tip = False\<rparr>,
            [(IntVol 15, ''src:A1'', ''dst:B1''), (IntVol 15, ''src:A1'', ''dst:B2'')])"
    by code_simp
  from blocks_left_unchanged [where cmds = "[\<lparr>name = Some ''fill'', source = Loc ''src:A1'',
       destination = Locs [''dst:B1'', ''dst:B2''], volume = Vol (IntVol 15),
       drop_tip = False\<rparr>,
        \<lparr>name = None, source = Loc ''src:A2'', destination = Loc ''dst:B3'',
       volume = Vols [100, 50], drop_tip = True\<rparr>]"
      and cell_str = str_int and cell_int = Inr
      and res = "[(''plate_map'', [(''vol'', [5, 10])])]"
      and c = "\<lparr>name = Some ''fill'', source = Loc ''src:A1'',
       destination = Locs [''dst:B1'', ''dst:B2''], volume = Vol (IntVol 15),
       drop_tip = False\<rparr>"
      and c' = "\<lparr>name = Some ''fill'', source = Loc ''src:A1'',
       destination = Locs [''dst:B1'', ''dst:B2''], volume = Vol (IntVol 15),
       drop_tip = False\<rparr>"
      and ts = "[(IntVol 15, ''src:A1'', ''dst:B1''), (IntVol 15, ''src:A1'', ''dst:B2'')]"]
    plain run
  show ?thesis by simp
qed

text \<open>
  The claim as stated fails: preprocessing replaces a bracketed source by
  the list of its locations, and \<open>process_instruction\<close> replaces a
  one-element volume list by its element.
\<close>

theorem blocks_rewritten_counterexample:
  "postprocess_commands str_int Inr []
     [\<lparr>name = Some ''fill'', source = Loc ''src:[A1, A2]'', destination = Loc ''dst:B1'',
       volume = Vol (IntVol 15), drop_tip = True\<rparr>]
   = Inr [\<lparr>name = Some ''fill'', source = Locs [''src:A1'', ''src:A2''],
           destination = Loc ''dst:B1'', volume = Vol (IntVol 15), drop_tip = True\<rparr>]
   \<and> Locs [''src:A1'', ''src:A2''] \<noteq> Loc ''src:[A1, A2]''
   \<and> process_instruction
       \<lparr>name = Some ''fill'', source = Locs [''src:A1'', ''src:A2''],
        destination = Loc ''dst:B1'', volume = Vols [50], drop_tip = True\<rparr>
     = Inr (\<lparr>name = Some ''fill'', source = Locs [''src:A1'', ''src:A2''],
             destination = Loc ''dst:B1'', volume = Vol (IntVol 50), drop_tip = True\<rparr>,
            [(IntVol 50, ''src:A1'', ''dst:B1''), (IntVol 50, ''src:A2'', ''dst:B1'')])
   \<and> Vol (IntVol 50) \<noteq> Vols [50]"
  by code_simp

end
